theory Spec2Isabelle
  imports Complex_Main
begin

section \<open>The retrieval-and-grounding pipeline of app.py\<close>

text \<open>
  A shallow embedding of \<^verbatim>\<open>search_similar_chunks\<close>, \<^verbatim>\<open>generate_answer\<close> and the
  \<^verbatim>\<open>/chat\<close> handler of \<^verbatim>\<open>src/app.py\<close>.

  Conventions.
  \<^item> A Python \<^verbatim>\<open>str\<close> is a \<^typ>\<open>string\<close>; every \<^typ>\<open>char\<close> stands for one code point,
    so \<^term>\<open>length\<close> is Python's \<^verbatim>\<open>len\<close> (code points below 256 are covered).
  \<^item> A finite Python \<^verbatim>\<open>float\<close> is the exact rational it denotes (the binary re-encoding
    of a result is not modelled); \<^verbatim>\<open>nan\<close> is a value of its own.
  \<^item> A column of a result row holds whatever the driver returns for it: a string, a
    number, \<^verbatim>\<open>nan\<close> or \<^verbatim>\<open>None\<close> for SQL NULL.
  \<^item> Every Python function is a state transformer on the list of calls made so far and
    returns \<^verbatim>\<open>Inl\<close> of the exception it raises or \<^verbatim>\<open>Inr\<close> of its value.
  \<^item> The collaborators (embedding model, database driver, completion client) are the
    fields of an environment record: each call either raises or returns.
  \<^item> The diagnostic \<^verbatim>\<open>print\<close> calls are left out.
\<close>

subsection \<open>Values, exceptions, strings\<close>

datatype pyval = PyStr string | PyNum rat | PyNaN | PyNone

type_synonym chunk = "(string \<times> pyval) list"

type_synonym embedding = "rat list"

datatype exn =
    KeyError string
  | TypeError string
  | IndexError string
  | AttributeError string
  | HTTPException nat string
  | Failure string

definition quoted :: "string \<Rightarrow> string" where
  "quoted s = [CHR 0x27] @ s @ [CHR 0x27]"

definition digit_char :: "nat \<Rightarrow> char" where
  "digit_char d = ''0123456789'' ! d"

fun show_nat :: "nat \<Rightarrow> string" where
  "show_nat n = (if n < 10 then [digit_char n] else show_nat (n div 10) @ [digit_char (n mod 10)])"

declare show_nat.simps [simp del]

text \<open>
  \<^verbatim>\<open>str(e)\<close>. A \<^verbatim>\<open>KeyError\<close> prints the \<^verbatim>\<open>repr\<close> of its key (here always a key
  without quotes or escapes), an \<^verbatim>\<open>HTTPException\<close> prints as Starlette defines it
  (\<^verbatim>\<open>f"{status_code}: {detail}"\<close>), every other exception prints its message.
  \<^term>\<open>Failure\<close> is an exception of a collaborator, known by its message.
\<close>

fun str_exn :: "exn \<Rightarrow> string" where
  "str_exn (KeyError k) = quoted k"
| "str_exn (TypeError m) = m"
| "str_exn (IndexError m) = m"
| "str_exn (AttributeError m) = m"
| "str_exn (HTTPException status detail) = show_nat status @ '': '' @ detail"
| "str_exn (Failure m) = m"

definition newline :: string where
  "newline = [CHR 0x0A]"

text \<open>The characters \<^verbatim>\<open>str.strip()\<close> removes: those for which \<^verbatim>\<open>str.isspace\<close> holds.\<close>

definition py_whitespace :: "char list" where
  "py_whitespace = [CHR 0x09, CHR 0x0A, CHR 0x0B, CHR 0x0C, CHR 0x0D, CHR 0x1C, CHR 0x1D,
     CHR 0x1E, CHR 0x1F, CHR 0x20, CHR 0x85, CHR 0xA0]"

definition is_space :: "char \<Rightarrow> bool" where
  "is_space c = (c \<in> set py_whitespace)"

definition strip :: "string \<Rightarrow> string" where
  "strip s = rev (dropWhile is_space (rev (dropWhile is_space s)))"

fun join_str :: "string \<Rightarrow> string list \<Rightarrow> string" where
  "join_str sep [] = []"
| "join_str sep [x] = x"
| "join_str sep (x # y # ys) = x @ sep @ join_str sep (y # ys)"

subsection \<open>Dynamic operations on values\<close>

text \<open>\<^verbatim>\<open>chunk[key]\<close> on a dict.\<close>

definition subscript :: "chunk \<Rightarrow> string \<Rightarrow> exn + pyval" where
  "subscript d k = (case map_of d k of None \<Rightarrow> Inl (KeyError k) | Some v \<Rightarrow> Inr v)"

fun py_len :: "pyval \<Rightarrow> exn + nat" where
  "py_len (PyStr s) = Inr (length s)"
| "py_len (PyNum x) = Inl (TypeError (''object of type '' @ quoted ''float'' @ '' has no len()''))"
| "py_len PyNaN = Inl (TypeError (''object of type '' @ quoted ''float'' @ '' has no len()''))"
| "py_len PyNone = Inl (TypeError (''object of type '' @ quoted ''NoneType'' @ '' has no len()''))"

text \<open>\<^verbatim>\<open>v[:n]\<close>\<close>

fun py_slice_to :: "pyval \<Rightarrow> nat \<Rightarrow> exn + pyval" where
  "py_slice_to (PyStr s) n = Inr (PyStr (take n s))"
| "py_slice_to (PyNum x) n = Inl (TypeError (quoted ''float'' @ '' object is not subscriptable''))"
| "py_slice_to PyNaN n = Inl (TypeError (quoted ''float'' @ '' object is not subscriptable''))"
| "py_slice_to PyNone n = Inl (TypeError (quoted ''NoneType'' @ '' object is not subscriptable''))"

text \<open>\<^verbatim>\<open>v + "..."\<close> with a string literal on the right.\<close>

fun py_add_str :: "pyval \<Rightarrow> string \<Rightarrow> exn + pyval" where
  "py_add_str (PyStr s) t = Inr (PyStr (s @ t))"
| "py_add_str (PyNum x) t = Inl (TypeError (''unsupported operand type(s) for +: '' @ quoted ''float'' @ '' and '' @ quoted ''str''))"
| "py_add_str PyNaN t = Inl (TypeError (''unsupported operand type(s) for +: '' @ quoted ''float'' @ '' and '' @ quoted ''str''))"
| "py_add_str PyNone t = Inl (TypeError (''unsupported operand type(s) for +: '' @ quoted ''NoneType'' @ '' and '' @ quoted ''str''))"

text \<open>Rounding to the nearest integer, ties to the even neighbour, as \<^verbatim>\<open>round\<close> does.\<close>

definition round_half_even :: "rat \<Rightarrow> int" where
  "round_half_even y =
     (let f = \<lfloor>y\<rfloor>; d = y - of_int f
      in if d < 1 / 2 then f else if 1 / 2 < d then f + 1 else if even f then f else f + 1)"

definition round_to :: "rat \<Rightarrow> nat \<Rightarrow> rat" where
  "round_to x ndigits = of_int (round_half_even (x * 10 ^ ndigits)) / 10 ^ ndigits"

text \<open>\<^verbatim>\<open>round(v, ndigits)\<close>; rounding \<^verbatim>\<open>nan\<close> to a number of digits gives \<^verbatim>\<open>nan\<close>.\<close>

fun py_round :: "pyval \<Rightarrow> nat \<Rightarrow> exn + pyval" where
  "py_round (PyNum x) ndigits = Inr (PyNum (round_to x ndigits))"
| "py_round PyNaN ndigits = Inr PyNaN"
| "py_round (PyStr s) ndigits = Inl (TypeError (''type str doesn'' @ [CHR 0x27] @ ''t define __round__ method''))"
| "py_round PyNone ndigits = Inl (TypeError (''type NoneType doesn'' @ [CHR 0x27] @ ''t define __round__ method''))"

subsection \<open>Calls, the environment and the control operators\<close>

text \<open>
  The calls a request makes, in the order made. \<^term>\<open>ExecNative\<close>, \<^term>\<open>ExecCast\<close> and
  \<^term>\<open>ExecText\<close> carry the parameter tuple passed to \<^verbatim>\<open>cursor.execute\<close>;
  \<^term>\<open>ChatCompletion\<close> carries model, prompt, \<^verbatim>\<open>max_tokens\<close> and \<^verbatim>\<open>temperature\<close>;
  \<^term>\<open>GenerateAnswer\<close> marks an entry into \<^verbatim>\<open>generate_answer\<close>.
\<close>

datatype event =
    Encode string
  | Connect
  | ExecColumns
  | ExecSample
  | ExecNative embedding embedding int
  | ExecCast embedding embedding int
  | ExecText string int
  | Close
  | GenerateAnswer string "chunk list"
  | ChatCompletion "string option" string nat rat

text \<open>A row of a result set: the values of the columns \<^verbatim>\<open>text\<close> and \<^verbatim>\<open>similarity\<close>, as
  the driver returns them.\<close>

record row =
  row_text :: pyval
  row_similarity :: pyval

text \<open>
  The environment of a request.
  \<^item> \<^verbatim>\<open>encode\<close>: \<^verbatim>\<open>model.encode([query])[0].tolist()\<close>.
  \<^item> \<^verbatim>\<open>connect\<close>: \<^verbatim>\<open>psycopg2.connect(DATABASE_URL)\<close>.
  \<^item> \<^verbatim>\<open>columns_query\<close>: the opening of the cursor, the \<^verbatim>\<open>information_schema.columns\<close>
    query and its \<^verbatim>\<open>fetchall\<close>.
  \<^item> \<^verbatim>\<open>sample_query\<close>: the one-row sample of the embedding column, its \<^verbatim>\<open>fetchone\<close>
    and the inspection of the sample.
  \<^item> \<^verbatim>\<open>native_query\<close>: the native vector query with its \<^verbatim>\<open>fetchall\<close>, as a function of the
    parameter tuple.
  \<^item> \<^verbatim>\<open>cast_query_error\<close>, \<^verbatim>\<open>text_query_error\<close>: the exceptions the driver raises for the
    cast query and for the textual query (see \<open>cast_query\<close> and \<open>text_query\<close> below).
  \<^item> \<^verbatim>\<open>groq_model\<close>: \<^verbatim>\<open>os.getenv("GROQ_MODEL1")\<close>.
  \<^item> \<^verbatim>\<open>completions_create\<close>: \<^verbatim>\<open>groq_client.chat.completions.create\<close>; a response is
    the list of its choices' message contents.
  \<^item> \<^verbatim>\<open>num_repr\<close>: how a number prints inside an f-string.
\<close>

record env =
  encode :: "string \<Rightarrow> exn + embedding"
  connect :: "exn + unit"
  columns_query :: "exn + unit"
  sample_query :: "exn + unit"
  native_query :: "embedding \<Rightarrow> embedding \<Rightarrow> int \<Rightarrow> exn + row list"
  cast_query_error :: exn
  text_query_error :: exn
  groq_model :: "string option"
  completions_create :: "string option \<Rightarrow> string \<Rightarrow> nat \<Rightarrow> rat \<Rightarrow> exn + string option list"
  num_repr :: "rat \<Rightarrow> string"

type_synonym 'a action = "event list \<Rightarrow> (exn + 'a) \<times> event list"

definition ret :: "'a \<Rightarrow> 'a action" where
  "ret x tr = (Inr x, tr)"

definition raise :: "exn \<Rightarrow> 'a action" where
  "raise e tr = (Inl e, tr)"

definition lift :: "exn + 'a \<Rightarrow> 'a action" where
  "lift r tr = (r, tr)"

definition call :: "event \<Rightarrow> exn + 'a \<Rightarrow> 'a action" where
  "call ev r tr = (r, tr @ [ev])"

definition bind :: "'a action \<Rightarrow> ('a \<Rightarrow> 'b action) \<Rightarrow> 'b action" where
  "bind m f tr = (case m tr of (Inl e, tr') \<Rightarrow> (Inl e, tr') | (Inr x, tr') \<Rightarrow> f x tr')"

text \<open>\<^verbatim>\<open>try: m except Exception as e: h e\<close>\<close>

definition try_except :: "'a action \<Rightarrow> (exn \<Rightarrow> 'a action) \<Rightarrow> 'a action" where
  "try_except m h tr = (case m tr of (Inl e, tr') \<Rightarrow> h e tr' | (Inr x, tr') \<Rightarrow> (Inr x, tr'))"

text \<open>\<^verbatim>\<open>try: m finally: conn.close()\<close>; closing the connection does not raise.\<close>

definition try_finally_close :: "'a action \<Rightarrow> 'a action" where
  "try_finally_close m tr = (case m tr of (r, tr') \<Rightarrow> (r, tr' @ [Close]))"

text \<open>Binding on plain results.\<close>

definition and_then :: "exn + 'a \<Rightarrow> ('a \<Rightarrow> exn + 'b) \<Rightarrow> exn + 'b" where
  "and_then r f = (case r of Inl e \<Rightarrow> Inl e | Inr x \<Rightarrow> f x)"

subsection \<open>The fallback statements on the failed transaction\<close>

text \<open>
  \<^verbatim>\<open>get_db_connection\<close> returns one psycopg2 connection, left in its default mode (no
  autocommit); \<^verbatim>\<open>search_similar_chunks\<close> runs every statement on one cursor of it and never
  rolls back. All statements of a request therefore share one transaction. The cast query
  is issued only in the handler of the native query's exception, and the textual query only
  in the handler of the cast query's exception: both reach the driver after a statement of
  the transaction has failed, and the driver raises for them (for a failure on the server:
  \<^verbatim>\<open>InFailedSqlTransaction\<close>, "current transaction is aborted, commands ignored until end
  of transaction block"). The environment states which exception.

  \<^verbatim>\<open>SELECT text, 1 - (embedding::vector <=> %s::vector) as similarity FROM items_xbox
  ORDER BY embedding::vector <=> %s::vector LIMIT %s\<close> with its \<^verbatim>\<open>fetchall\<close>:
\<close>

definition cast_query :: "env \<Rightarrow> embedding \<Rightarrow> embedding \<Rightarrow> int \<Rightarrow> exn + row list" where
  "cast_query env query_embedding query_embedding' top_k = Inl (cast_query_error env)"

text \<open>
  \<^verbatim>\<open>SELECT text, 0.5 as similarity FROM items_xbox WHERE text ILIKE %s LIMIT %s\<close> with its
  \<^verbatim>\<open>fetchall\<close>:
\<close>

definition text_query :: "env \<Rightarrow> string \<Rightarrow> int \<Rightarrow> exn + row list" where
  "text_query env pattern top_k = Inl (text_query_error env)"

subsection \<open>search_similar_chunks (lines 44 to 134)\<close>

text \<open>\<^verbatim>\<open>dict(row)\<close>\<close>

definition dict_of_row :: "row \<Rightarrow> chunk" where
  "dict_of_row r = [(''text'', row_text r), (''similarity'', row_similarity r)]"

definition get_db_connection :: "env \<Rightarrow> unit action" where
  "get_db_connection env =
     try_except (call Connect (connect env))
       (\<lambda>e. raise (HTTPException 500 (''Database connection failed: '' @ str_exn e)))"

definition search_similar_chunks :: "env \<Rightarrow> string \<Rightarrow> int \<Rightarrow> chunk list action" where
  "search_similar_chunks env query top_k =
     bind (call (Encode query) (encode env query)) (\<lambda>query_embedding.
     bind (get_db_connection env) (\<lambda>conn.
     try_finally_close
       (try_except
          (bind (call ExecColumns (columns_query env)) (\<lambda>columns.
           bind (call ExecSample (sample_query env)) (\<lambda>sample.
           try_except
             (bind (call (ExecNative query_embedding query_embedding top_k)
                      (native_query env query_embedding query_embedding top_k))
                (\<lambda>results. ret (map dict_of_row results)))
             (\<lambda>e.
                try_except
                  (bind (call (ExecCast query_embedding query_embedding top_k)
                           (cast_query env query_embedding query_embedding top_k))
                     (\<lambda>results. ret (map dict_of_row results)))
                  (\<lambda>e2.
                     bind (call (ExecText (''%'' @ query @ ''%'') top_k)
                             (text_query env (''%'' @ query @ ''%'') top_k))
                       (\<lambda>results. ret (map dict_of_row results)))))))
          (\<lambda>e. raise (HTTPException 500 (''Search failed: '' @ str_exn e))))))"

subsection \<open>generate_answer (lines 136 to 166)\<close>

text \<open>What an f-string puts for \<^verbatim>\<open>{v}\<close>.\<close>

fun py_format :: "env \<Rightarrow> pyval \<Rightarrow> string" where
  "py_format env (PyStr s) = s"
| "py_format env (PyNum x) = num_repr env x"
| "py_format env PyNaN = ''nan''"
| "py_format env PyNone = ''None''"

text \<open>
  The list comprehension over \<^verbatim>\<open>enumerate(relevant_chunks)\<close>, from index \<open>i\<close> on:
  \<^verbatim>\<open>f"Source {i+1}: {chunk['text']}"\<close> for each chunk, stopping at the first chunk
  without the key.
\<close>

fun source_lines :: "env \<Rightarrow> nat \<Rightarrow> chunk list \<Rightarrow> exn + string list" where
  "source_lines env i [] = Inr []"
| "source_lines env i (chunk # rest) =
     and_then (subscript chunk ''text'') (\<lambda>v.
     and_then (source_lines env (i + 1) rest) (\<lambda>ls.
     Inr ((''Source '' @ show_nat (i + 1) @ '': '' @ py_format env v) # ls)))"

definition build_context :: "env \<Rightarrow> chunk list \<Rightarrow> exn + string" where
  "build_context env relevant_chunks =
     and_then (source_lines env 0 relevant_chunks) (\<lambda>ls. Inr (join_str (newline @ newline) ls))"

definition indent :: string where
  "indent = ''        ''"

definition make_prompt :: "string \<Rightarrow> string \<Rightarrow> string" where
  "make_prompt context query =
     ''You are a helpful assistant answering questions about the Xbox ROG Ally handheld device. '' @ newline @
     indent @ ''Use the following information to answer the user's question. If you don't know the answer based on the provided information, say so.'' @ newline @
     newline @
     indent @ ''Context:'' @ newline @
     indent @ context @ newline @
     newline @
     indent @ ''User Question: '' @ query @ newline @
     newline @
     indent @ ''Answer:''"

text \<open>\<^verbatim>\<open>response.choices[0].message.content.strip()\<close>\<close>

definition first_choice_stripped :: "string option list \<Rightarrow> exn + string" where
  "first_choice_stripped choices =
     (case choices of
        [] \<Rightarrow> Inl (IndexError ''list index out of range'')
      | None # _ \<Rightarrow> Inl (AttributeError (quoted ''NoneType'' @ '' object has no attribute '' @ quoted ''strip''))
      | Some content # _ \<Rightarrow> Inr (strip content))"

definition error_answer :: "exn \<Rightarrow> string" where
  "error_answer e = ''Sorry, I encountered an error generating the answer: '' @ str_exn e"

definition generate_answer :: "env \<Rightarrow> string \<Rightarrow> chunk list \<Rightarrow> string action" where
  "generate_answer env query relevant_chunks =
     bind (call (GenerateAnswer query relevant_chunks) (Inr ())) (\<lambda>_.
     try_except
       (bind (lift (build_context env relevant_chunks)) (\<lambda>context.
        bind (call (ChatCompletion (groq_model env) (make_prompt context query) 1000 (7 / 10))
                (completions_create env (groq_model env) (make_prompt context query) 1000 (7 / 10)))
          (\<lambda>response. lift (first_choice_stripped response))))
       (\<lambda>e. ret (error_answer e)))"

subsection \<open>The /chat handler (lines 168 to 196)\<close>

record chat_request =
  message :: string

record source =
  content :: pyval
  similarity :: pyval

record chat_response =
  answer :: string
  sources :: "source list"

definition no_information :: string where
  "no_information = ''I don't have enough information to answer your question. The Xbox ROG Ally data needs to be available in the database.''"

text \<open>
  One entry of the \<^verbatim>\<open>sources\<close> comprehension. The condition \<^verbatim>\<open>len(chunk["text"]) > 200\<close>
  is evaluated first, then the chosen branch, then the rounding.
\<close>

definition format_source :: "chunk \<Rightarrow> exn + source" where
  "format_source chunk =
     and_then (and_then (subscript chunk ''text'') py_len) (\<lambda>n.
     and_then
       (if n > 200
        then and_then (and_then (subscript chunk ''text'') (\<lambda>t. py_slice_to t 200)) (\<lambda>t. py_add_str t ''...'')
        else subscript chunk ''text'') (\<lambda>c.
     and_then (and_then (subscript chunk ''similarity'') (\<lambda>s. py_round s 3)) (\<lambda>r.
     Inr \<lparr>content = c, similarity = r\<rparr>)))"

fun format_sources :: "chunk list \<Rightarrow> exn + source list" where
  "format_sources [] = Inr []"
| "format_sources (chunk # rest) =
     and_then (format_source chunk) (\<lambda>s.
     and_then (format_sources rest) (\<lambda>ss. Inr (s # ss)))"

definition chat :: "env \<Rightarrow> chat_request \<Rightarrow> chat_response action" where
  "chat env request =
     try_except
       (bind (search_similar_chunks env (message request) 5) (\<lambda>relevant_chunks.
        if relevant_chunks = [] then ret \<lparr>answer = no_information, sources = []\<rparr>
        else
          bind (generate_answer env (message request) relevant_chunks) (\<lambda>answer.
          bind (lift (format_sources relevant_chunks)) (\<lambda>sources.
          ret \<lparr>answer = answer, sources = sources\<rparr>))))
       (\<lambda>e. raise (HTTPException 500 (str_exn e)))"

text \<open>
  What the framework sends for a request that starts with no call made: status 200 with
  the returned body, the status and detail of a raised \<^verbatim>\<open>HTTPException\<close>, and an
  unhandled failure for any other exception.
\<close>

datatype http_response =
    Ok200 chat_response
  | ErrorDetail nat string
  | Unhandled exn

fun respond :: "exn + chat_response \<Rightarrow> http_response" where
  "respond (Inr body) = Ok200 body"
| "respond (Inl (HTTPException status detail)) = ErrorDetail status detail"
| "respond (Inl e) = Unhandled e"

definition post_chat :: "env \<Rightarrow> chat_request \<Rightarrow> http_response \<times> event list" where
  "post_chat env request = (case chat env request [] of (r, tr) \<Rightarrow> (respond r, tr))"

subsection \<open>Vocabulary of the specification\<close>

text \<open>Calls into the Composer: an entry into \<^verbatim>\<open>generate_answer\<close> or a completion request.\<close>

fun composer_event :: "event \<Rightarrow> bool" where
  "composer_event (GenerateAnswer q cs) = True"
| "composer_event (ChatCompletion m p n t) = True"
| "composer_event ev = False"

text \<open>Attempts of a retrieval tier.\<close>

fun tier_event :: "event \<Rightarrow> bool" where
  "tier_event (ExecNative a b k) = True"
| "tier_event (ExecCast a b k) = True"
| "tier_event (ExecText p k) = True"
| "tier_event ev = False"

text \<open>Section 3 of the specification, RetrievedPassage: the text is a string and the
  similarity is a float.\<close>

definition retrieved_passage :: "chunk \<Rightarrow> bool" where
  "retrieved_passage c =
     (case map_of c ''text'' of
        Some (PyStr t) \<Rightarrow>
          (case map_of c ''similarity'' of
             Some (PyNum s) \<Rightarrow> True
           | Some PyNaN \<Rightarrow> True
           | _ \<Rightarrow> False)
      | _ \<Rightarrow> False)"

text \<open>Section 4.3 of the specification: a passage cut to 200 characters, with an ellipsis
  marker if it was cut, and its similarity rounded to 3 decimals.\<close>

definition truncate_text :: "string \<Rightarrow> string" where
  "truncate_text t = (if length t > 200 then take 200 t @ ''...'' else t)"

definition formatted :: "chunk \<Rightarrow> source" where
  "formatted c =
     \<lparr>content = (case map_of c ''text'' of Some (PyStr t) \<Rightarrow> PyStr (truncate_text t) | _ \<Rightarrow> PyNone),
      similarity = (case map_of c ''similarity'' of
                      Some (PyNum s) \<Rightarrow> PyNum (round_to s 3)
                    | Some v \<Rightarrow> v
                    | None \<Rightarrow> PyNone)\<rparr>"

text \<open>Section 4.2 of the specification: each passage's text under a 1-based source label,
  the labelled passages joined by blank lines.\<close>

definition labelled_passages :: "string list \<Rightarrow> string list" where
  "labelled_passages texts =
     map (\<lambda>i. ''Source '' @ show_nat (i + 1) @ '': '' @ texts ! i) [0..<length texts]"

fun blank_line_joined :: "string list \<Rightarrow> string" where
  "blank_line_joined [] = []"
| "blank_line_joined (x # xs) = x @ concat (map (\<lambda>y. [CHR 0x0A, CHR 0x0A] @ y) xs)"

definition grounding_context :: "string list \<Rightarrow> string" where
  "grounding_context texts = blank_line_joined (labelled_passages texts)"

subsection \<open>Concrete environments\<close>

definition long_passage :: string where
  "long_passage = replicate 201 (CHR ''a'')"

definition first_score :: rat where
  "first_score = 8125 / 10000"

definition second_score :: rat where
  "second_score = 3 / 7"

definition in_failed_transaction :: exn where
  "in_failed_transaction =
     Failure (''current transaction is aborted, commands ignored until end of transaction block''
              @ [CHR 0x0A])"

definition demo_env :: env where
  "demo_env = \<lparr>
     encode = (\<lambda>q. Inr [1 / 10, 1 / 5]),
     connect = Inr (),
     columns_query = Inr (),
     sample_query = Inr (),
     native_query = (\<lambda>a b k. Inr [\<lparr>row_text = PyStr ''The ROG Ally has a 7-inch display'',
                                      row_similarity = PyNum first_score\<rparr>,
                                    \<lparr>row_text = PyStr long_passage,
                                      row_similarity = PyNum second_score\<rparr>]),
     cast_query_error = in_failed_transaction,
     text_query_error = in_failed_transaction,
     groq_model = Some ''llama'',
     completions_create = (\<lambda>m p n t. Inr [Some '' It has a 7-inch display. '']),
     num_repr = (\<lambda>x. ''0.5'')\<rparr>"

definition empty_corpus :: "env \<Rightarrow> env" where
  "empty_corpus env = env\<lparr>native_query := (\<lambda>a b k. Inr [])\<rparr>"

definition undefined_operator :: exn where
  "undefined_operator = Failure ''operator does not exist: double precision[] <=> vector''"

definition native_query_fails :: "env \<Rightarrow> env" where
  "native_query_fails env = env\<lparr>native_query := (\<lambda>a b k. Inl undefined_operator)\<rparr>"

definition columns_query_fails :: "env \<Rightarrow> env" where
  "columns_query_fails env = env\<lparr>columns_query := Inl (Failure ''permission denied'')\<rparr>"

definition sample_query_fails :: "env \<Rightarrow> env" where
  "sample_query_fails env = env\<lparr>sample_query := Inl (Failure ''column does not exist'')\<rparr>"

definition request_timed_out :: exn where
  "request_timed_out = Failure ''Request timed out.''"

definition completion_fails :: "env \<Rightarrow> env" where
  "completion_fails env = env\<lparr>completions_create := (\<lambda>m p n t. Inl request_timed_out)\<rparr>"

definition no_choices :: "env \<Rightarrow> env" where
  "no_choices env = env\<lparr>completions_create := (\<lambda>m p n t. Inr [])\<rparr>"

text \<open>Rows with SQL NULL in a column.\<close>

definition null_text_row :: "env \<Rightarrow> env" where
  "null_text_row env =
     env\<lparr>native_query := (\<lambda>a b k. Inr [\<lparr>row_text = PyNone, row_similarity = PyNum first_score\<rparr>])\<rparr>"

definition null_similarity_row :: "env \<Rightarrow> env" where
  "null_similarity_row env =
     env\<lparr>native_query := (\<lambda>a b k. Inr [\<lparr>row_text = PyStr ''The ROG Ally has a 7-inch display'',
                                           row_similarity = PyNone\<rparr>])\<rparr>"

definition long_null_similarity_row :: "env \<Rightarrow> env" where
  "long_null_similarity_row env =
     env\<lparr>native_query := (\<lambda>a b k. Inr [\<lparr>row_text = PyStr long_passage, row_similarity = PyNone\<rparr>])\<rparr>"

definition question :: chat_request where
  "question = \<lparr>message = ''What screen size does it have?''\<rparr>"

section \<open>Properties\<close>

subsection \<open>Auxiliary facts\<close>

lemmas action_defs = ret_def raise_def lift_def call_def bind_def try_except_def
  try_finally_close_def

lemma show_nat_500: "show_nat 500 = ''500''"
  by (simp add: show_nat.simps digit_char_def)

lemma search_no_composer:
  "\<forall>ev \<in> set (snd (search_similar_chunks env q k [])). \<not> composer_event ev"
  by (auto simp: search_similar_chunks_def get_db_connection_def action_defs
      split: sum.splits prod.splits)

lemma search_returns_rows:
  "search_similar_chunks env q k tr = (Inr chunks, tr') \<Longrightarrow> \<exists>rows. chunks = map dict_of_row rows"
  by (auto simp: search_similar_chunks_def get_db_connection_def action_defs
      split: sum.splits prod.splits)

lemma generate_answer_returns:
  "\<exists>a tr'. generate_answer env q cs tr = (Inr a, tr')"
  by (auto simp: generate_answer_def action_defs split: sum.splits prod.splits)

lemma format_source_passage:
  "retrieved_passage c \<Longrightarrow> format_source c = Inr (formatted c)"
  by (auto simp: retrieved_passage_def format_source_def subscript_def and_then_def formatted_def
      truncate_text_def split: option.splits pyval.splits)

lemma format_sources_passages:
  "\<forall>c \<in> set cs. retrieved_passage c \<Longrightarrow> format_sources cs = Inr (map formatted cs)"
  by (induction cs) (simp_all add: format_source_passage and_then_def)

lemma chat_grounded:
  assumes s: "search_similar_chunks env (message request) 5 [] = (Inr chunks, tr)"
    and g: "generate_answer env (message request) chunks tr = (Inr a, tr')"
    and f: "format_sources chunks = Inr srcs"
    and ne: "chunks \<noteq> []"
  shows "chat env request [] = (Inr \<lparr>answer = a, sources = srcs\<rparr>, tr')"
  using ne by (simp add: chat_def bind_def try_except_def ret_def lift_def s g f)

lemma post_chat_sources:
  assumes "fst (search_similar_chunks env (message request) 5 []) = Inr chunks"
    and "\<forall>c \<in> set chunks. retrieved_passage c"
  shows "\<exists>resp. fst (post_chat env request) = Ok200 resp \<and> sources resp = map formatted chunks"
proof -
  obtain tr where s: "search_similar_chunks env (message request) 5 [] = (Inr chunks, tr)"
    using assms(1) by (cases "search_similar_chunks env (message request) 5 []") auto
  show ?thesis
  proof (cases "chunks = []")
    case True
    then have "chat env request [] = (Inr \<lparr>answer = no_information, sources = []\<rparr>, tr)"
      using s by (simp add: chat_def bind_def try_except_def ret_def)
    then show ?thesis using True
      by (intro exI [of _ "\<lparr>answer = no_information, sources = []\<rparr>"]) (simp add: post_chat_def)
  next
    case False
    obtain a tr' where g: "generate_answer env (message request) chunks tr = (Inr a, tr')"
      using generate_answer_returns by blast
    have "chat env request [] = (Inr \<lparr>answer = a, sources = map formatted chunks\<rparr>, tr')"
      by (rule chat_grounded [OF s g format_sources_passages [OF assms(2)] False])
    then show ?thesis
      by (intro exI [of _ "\<lparr>answer = a, sources = map formatted chunks\<rparr>"]) (simp add: post_chat_def)
  qed
qed

lemma round_half_even_near: "\<bar>of_int (round_half_even y) - y\<bar> \<le> 1 / 2"
proof -
  define d where "d = y - of_int \<lfloor>y\<rfloor>"
  have d: "0 \<le> d" "d < 1" unfolding d_def by linarith+
  consider "d < 1 / 2" | "1 / 2 < d" | "d = 1 / 2" by linarith
  then show ?thesis
  proof cases
    case 1
    then have "round_half_even y = \<lfloor>y\<rfloor>"
      by (simp add: round_half_even_def Let_def d_def)
    then show ?thesis using d 1 unfolding d_def by simp
  next
    case 2
    then have "round_half_even y = \<lfloor>y\<rfloor> + 1"
      by (simp add: round_half_even_def Let_def d_def)
    then show ?thesis using d 2 unfolding d_def by simp
  next
    case 3
    then have "round_half_even y = \<lfloor>y\<rfloor> \<or> round_half_even y = \<lfloor>y\<rfloor> + 1"
      by (simp add: round_half_even_def Let_def d_def)
    then show ?thesis using d 3 unfolding d_def by auto
  qed
qed

lemma round_to_3_near: "\<bar>round_to s 3 - s\<bar> \<le> 1 / 2000"
proof -
  have "\<bar>of_int (round_half_even (s * 1000)) - s * 1000\<bar> \<le> 1 / 2"
    by (rule round_half_even_near)
  then have "\<bar>(of_int (round_half_even (s * 1000)) - s * 1000) / 1000\<bar> \<le> (1 / 2) / 1000"
    by (simp add: divide_right_mono del: times_divide_eq_left)
  then show ?thesis by (simp add: round_to_def diff_divide_distrib)
qed

lemma source_lines_rows:
  "source_lines env i (map dict_of_row rows) =
     Inr (map (\<lambda>j. ''Source '' @ show_nat (i + j + 1) @ '': '' @ py_format env (row_text (rows ! j)))
            [0..<length rows])"
proof (induction rows arbitrary: i)
  case Nil
  then show ?case by simp
next
  case (Cons r rows)
  have shift: "[0..<Suc (length rows)] = 0 # map Suc [0..<length rows]"
    by (simp add: upt_conv_Cons map_Suc_upt del: upt_Suc)
  have head: "subscript (dict_of_row r) ''text'' = Inr (row_text r)"
    by (simp add: subscript_def dict_of_row_def)
  show ?case
    by (simp add: Cons.IH head and_then_def shift o_def del: upt_Suc)
qed

lemma join_str_Cons: "join_str sep (x # xs) = x @ concat (map (\<lambda>y. sep @ y) xs)"
  by (induction xs arbitrary: x) auto

lemma join_str_blank_lines: "join_str (newline @ newline) xs = blank_line_joined xs"
proof -
  have "(\<lambda>y. (newline @ newline) @ y) = (\<lambda>y. [CHR 0x0A, CHR 0x0A] @ y)"
    by (simp add: newline_def)
  then show ?thesis
    by (cases xs) (simp_all only: join_str_Cons join_str.simps blank_line_joined.simps)
qed

lemma build_context_rows:
  "build_context env (map dict_of_row rows) =
     Inr (grounding_context (map (\<lambda>r. py_format env (row_text r)) rows))"
proof -
  have "map (\<lambda>j. ''Source '' @ show_nat (0 + j + 1) @ '': '' @ py_format env (row_text (rows ! j)))
          [0..<length rows]
      = labelled_passages (map (\<lambda>r. py_format env (row_text r)) rows)"
    by (simp add: labelled_passages_def)
  then show ?thesis
    by (simp add: build_context_def source_lines_rows and_then_def grounding_context_def
        join_str_blank_lines)
qed

lemma build_context_texts:
  assumes "map row_text rows = map PyStr texts"
  shows "build_context env (map dict_of_row rows) = Inr (grounding_context texts)"
proof -
  have "map (\<lambda>r. py_format env (row_text r)) rows = map (py_format env) (map row_text rows)"
    by simp
  also have "\<dots> = texts"
    unfolding assms by (simp add: o_def)
  finally show ?thesis by (simp add: build_context_rows)
qed

lemma source_lines_missing_text:
  "\<exists>c \<in> set chunks. map_of c ''text'' = None \<Longrightarrow> source_lines env i chunks = Inl (KeyError ''text'')"
proof (induction chunks arbitrary: i)
  case Nil
  then show ?case by simp
next
  case (Cons c chunks)
  show ?case
  proof (cases "map_of c ''text''")
    case None
    then show ?thesis by (simp add: and_then_def subscript_def)
  next
    case (Some v)
    then have "\<exists>c \<in> set chunks. map_of c ''text'' = None"
      using Cons.prems by auto
    then have "source_lines env (i + 1) chunks = Inl (KeyError ''text'')"
      by (rule Cons.IH)
    then show ?thesis using Some by (simp add: and_then_def subscript_def)
  qed
qed

lemma last_dropWhile: "dropWhile P xs \<noteq> [] \<Longrightarrow> last (dropWhile P xs) = last xs"
  by (induction xs) (auto split: if_splits)

lemma strip_surrounding:
  "\<exists>pre suf. s = pre @ strip s @ suf \<and> (\<forall>c \<in> set pre. is_space c) \<and> (\<forall>c \<in> set suf. is_space c)"
proof -
  let ?b = "dropWhile is_space s"
  have 1: "s = takeWhile is_space s @ ?b" by simp
  have "rev (takeWhile is_space (rev ?b) @ dropWhile is_space (rev ?b)) = rev (rev ?b)"
    by (simp only: takeWhile_dropWhile_id)
  then have "rev (dropWhile is_space (rev ?b)) @ rev (takeWhile is_space (rev ?b)) = ?b"
    by (simp only: rev_append rev_rev_ident)
  then have 2: "?b = strip s @ rev (takeWhile is_space (rev ?b))"
    by (simp only: strip_def)
  have 3: "\<forall>c \<in> set (takeWhile is_space s). is_space c"
    by (auto dest: set_takeWhileD)
  have 4: "\<forall>c \<in> set (rev (takeWhile is_space (rev ?b))). is_space c"
    by (auto dest: set_takeWhileD)
  from 1 2 have "s = takeWhile is_space s @ strip s @ rev (takeWhile is_space (rev ?b))"
    by metis
  with 3 4 show ?thesis by blast
qed

lemma strip_ends:
  assumes "strip s \<noteq> []"
  shows "\<not> is_space (hd (strip s)) \<and> \<not> is_space (last (strip s))"
proof -
  let ?b = "dropWhile is_space s"
  let ?d = "dropWhile is_space (rev ?b)"
  have d: "?d \<noteq> []" using assms by (simp add: strip_def)
  have b: "?b \<noteq> []"
  proof
    assume "?b = []"
    then have "rev ?b = []" by (simp only: rev.simps)
    then have "?d = []" by (simp only: dropWhile.simps)
    with d show False by (simp only: not_True_eq_False simp_thms)
  qed
  have "last (strip s) = hd ?d" using d by (simp add: strip_def last_rev)
  moreover have "\<not> is_space (hd ?d)" using d by (rule hd_dropWhile)
  moreover have "hd (strip s) = last ?d" using d by (simp add: strip_def hd_rev)
  moreover have "last ?d = last (rev ?b)" using d by (rule last_dropWhile)
  moreover have "last (rev ?b) = hd ?b" using b by (simp add: last_rev)
  moreover have "\<not> is_space (hd ?b)" using b by (rule hd_dropWhile)
  ultimately show ?thesis by simp
qed

text \<open>The demonstration environment's retrieval and roundings.\<close>

lemma demo_search:
  "fst (search_similar_chunks demo_env (message question) 5 []) =
     Inr [[(''text'', PyStr ''The ROG Ally has a 7-inch display''), (''similarity'', PyNum first_score)],
          [(''text'', PyStr long_passage), (''similarity'', PyNum second_score)]]"
  by (simp add: demo_env_def question_def search_similar_chunks_def get_db_connection_def
      action_defs dict_of_row_def)

lemma demo_passages:
  "\<forall>c \<in> set [[(''text'', PyStr ''The ROG Ally has a 7-inch display''), (''similarity'', PyNum first_score)],
          [(''text'', PyStr long_passage), (''similarity'', PyNum second_score)]]. retrieved_passage c"
  by (simp add: retrieved_passage_def)

lemma round_demo: "round_to first_score 3 = 812 / 1000" "round_to second_score 3 = 429 / 1000"
  by code_simp+

lemma timeout_search:
  "fst (search_similar_chunks (completion_fails demo_env) (message question) 5 []) =
     Inr [[(''text'', PyStr ''The ROG Ally has a 7-inch display''), (''similarity'', PyNum first_score)],
          [(''text'', PyStr long_passage), (''similarity'', PyNum second_score)]]"
  by (simp add: completion_fails_def demo_env_def question_def search_similar_chunks_def
      get_db_connection_def action_defs dict_of_row_def)

lemma timeout_sources:
  "format_sources
     [[(''text'', PyStr ''The ROG Ally has a 7-inch display''), (''similarity'', PyNum first_score)],
      [(''text'', PyStr long_passage), (''similarity'', PyNum second_score)]] =
   Inr [\<lparr>content = PyStr ''The ROG Ally has a 7-inch display'', similarity = PyNum (812 / 1000)\<rparr>,
        \<lparr>content = PyStr (replicate 200 (CHR ''a'') @ ''...''), similarity = PyNum (429 / 1000)\<rparr>]"
  by (simp add: format_source_def subscript_def and_then_def long_passage_def round_demo)

subsection \<open>Empty retrieval\<close>

text \<open>
  C1. When retrieval returns the empty list, the \<^verbatim>\<open>/chat\<close> handler answers with status 200,
  the fixed "insufficient information" answer and an empty source list; the calls of the
  request are those of the retrieval alone, so neither \<^verbatim>\<open>generate_answer\<close> nor the
  completion service is invoked.
\<close>

theorem chat_empty_retrieval:
  assumes "fst (search_similar_chunks env (message request) 5 []) = Inr []"
  shows "fst (post_chat env request) = Ok200 \<lparr>answer = no_information, sources = []\<rparr>
       \<and> snd (post_chat env request) = snd (search_similar_chunks env (message request) 5 [])
       \<and> (\<forall>ev \<in> set (snd (post_chat env request)). \<not> composer_event ev)"
proof -
  obtain tr where s: "search_similar_chunks env (message request) 5 [] = (Inr [], tr)"
    using assms by (cases "search_similar_chunks env (message request) 5 []") auto
  have c: "chat env request [] = (Inr \<lparr>answer = no_information, sources = []\<rparr>, tr)"
    by (simp add: chat_def bind_def try_except_def ret_def s)
  have "\<forall>ev \<in> set tr. \<not> composer_event ev"
    using search_no_composer [of env "message request" 5] s by simp
  then show ?thesis by (simp add: post_chat_def c s)
qed

theorem chat_empty_retrieval_witness:
  "fst (search_similar_chunks (empty_corpus demo_env) (message question) 5 []) = Inr []
   \<and> post_chat (empty_corpus demo_env) question =
       (Ok200 \<lparr>answer = no_information, sources = []\<rparr>,
        [Encode (message question), Connect, ExecColumns, ExecSample,
         ExecNative [1 / 10, 1 / 5] [1 / 10, 1 / 5] 5, Close])"
proof -
  have h: "fst (search_similar_chunks (empty_corpus demo_env) (message question) 5 []) = Inr []"
    by code_simp
  have t: "snd (search_similar_chunks (empty_corpus demo_env) (message question) 5 []) =
        [Encode (message question), Connect, ExecColumns, ExecSample,
         ExecNative [1 / 10, 1 / 5] [1 / 10, 1 / 5] 5, Close]"
    by code_simp
  from chat_empty_retrieval [OF h] t h show ?thesis
    by (simp add: prod_eq_iff)
qed

subsection \<open>Order of the retrieval tiers\<close>

text \<open>
  C2. When the native-vector tier raises, the calls of the retrieval are the preamble, the
  native query, then the cast query with the same query embedding (in both parameter slots)
  and the same \<^verbatim>\<open>top_k\<close>, then the textual query exactly when the cast query raised as
  well, then the close of the connection. And in any run, a textual query among the calls
  means that both vector queries were made before it and raised.
\<close>

theorem cast_tier_follows_native:
  "(\<forall>qe e1. encode env query = Inr qe \<and> connect env = Inr () \<and> columns_query env = Inr ()
        \<and> sample_query env = Inr () \<and> native_query env qe qe top_k = Inl e1 \<longrightarrow>
      snd (search_similar_chunks env query top_k []) =
           [Encode query, Connect, ExecColumns, ExecSample,
            ExecNative qe qe top_k, ExecCast qe qe top_k]
           @ (case cast_query env qe qe top_k of
                Inl e2 \<Rightarrow> [ExecText (''%'' @ query @ ''%'') top_k]
              | Inr rows \<Rightarrow> [])
           @ [Close])
   \<and> (\<forall>p k. ExecText p k \<in> set (snd (search_similar_chunks env query top_k [])) \<longrightarrow>
        (\<exists>qe e1 e2. encode env query = Inr qe \<and> native_query env qe qe top_k = Inl e1
           \<and> cast_query env qe qe top_k = Inl e2
           \<and> snd (search_similar_chunks env query top_k []) =
               [Encode query, Connect, ExecColumns, ExecSample, ExecNative qe qe top_k,
                ExecCast qe qe top_k, ExecText p k, Close]))"
  by (auto simp: search_similar_chunks_def get_db_connection_def action_defs
      split: sum.splits prod.splits)

theorem cast_tier_follows_native_witness:
  "native_query (native_query_fails demo_env) [1 / 10, 1 / 5] [1 / 10, 1 / 5] 5 = Inl undefined_operator
   \<and> snd (search_similar_chunks (native_query_fails demo_env) ''display'' 5 []) =
       [Encode ''display'', Connect, ExecColumns, ExecSample,
        ExecNative [1 / 10, 1 / 5] [1 / 10, 1 / 5] 5, ExecCast [1 / 10, 1 / 5] [1 / 10, 1 / 5] 5,
        ExecText ''%display%'' 5, Close]"
proof -
  have h: "encode (native_query_fails demo_env) ''display'' = Inr [1 / 10, 1 / 5]
      \<and> connect (native_query_fails demo_env) = Inr ()
      \<and> columns_query (native_query_fails demo_env) = Inr ()
      \<and> sample_query (native_query_fails demo_env) = Inr ()
      \<and> native_query (native_query_fails demo_env) [1 / 10, 1 / 5] [1 / 10, 1 / 5] 5 = Inl undefined_operator"
    by (simp add: native_query_fails_def demo_env_def)
  have c: "cast_query (native_query_fails demo_env) [1 / 10, 1 / 5] [1 / 10, 1 / 5] 5 = Inl in_failed_transaction"
    by (simp add: cast_query_def native_query_fails_def demo_env_def)
  have "snd (search_similar_chunks (native_query_fails demo_env) ''display'' 5 []) =
           [Encode ''display'', Connect, ExecColumns, ExecSample,
            ExecNative [1 / 10, 1 / 5] [1 / 10, 1 / 5] 5, ExecCast [1 / 10, 1 / 5] [1 / 10, 1 / 5] 5]
           @ (case cast_query (native_query_fails demo_env) [1 / 10, 1 / 5] [1 / 10, 1 / 5] 5 of
                Inl e2 \<Rightarrow> [ExecText (''%'' @ ''display'' @ ''%'') 5]
              | Inr rows \<Rightarrow> [])
           @ [Close]"
    by (rule cast_tier_follows_native [THEN conjunct1, rule_format, OF h])
  then show ?thesis using h by (simp add: c)
qed

subsection \<open>All tiers failing\<close>

text \<open>
  C5. When the native, the cast and the textual query all raise, the retrieval raises an
  \<^verbatim>\<open>HTTPException\<close> with status 500, and the handler answers with status 500 and a detail
  string that carries the textual query's error: a structured error, not an unhandled one.
\<close>

theorem all_tiers_fail_structured_error:
  assumes "encode env (message request) = Inr qe" and "connect env = Inr ()"
    and "columns_query env = Inr ()" and "sample_query env = Inr ()"
    and "native_query env qe qe 5 = Inl e1"
    and "cast_query env qe qe 5 = Inl e2"
    and "text_query env (''%'' @ message request @ ''%'') 5 = Inl e3"
  shows "fst (search_similar_chunks env (message request) 5 []) =
           Inl (HTTPException 500 (''Search failed: '' @ str_exn e3))
       \<and> fst (post_chat env request) = ErrorDetail 500 (''500: Search failed: '' @ str_exn e3)"
  using assms
  by (simp add: post_chat_def chat_def search_similar_chunks_def get_db_connection_def
      action_defs show_nat_500 split: sum.splits prod.splits)

theorem all_tiers_fail_structured_error_witness:
  "text_query (native_query_fails demo_env) (''%'' @ message question @ ''%'') 5 =
     Inl in_failed_transaction
   \<and> fst (post_chat (native_query_fails demo_env) question) =
       ErrorDetail 500
         (''500: Search failed: current transaction is aborted, commands ignored until end of transaction block''
          @ [CHR 0x0A])"
proof -
  let ?env = "native_query_fails demo_env"
  have h: "encode ?env (message question) = Inr [1 / 10, 1 / 5]" "connect ?env = Inr ()"
     "columns_query ?env = Inr ()" "sample_query ?env = Inr ()"
     "native_query ?env [1 / 10, 1 / 5] [1 / 10, 1 / 5] 5 = Inl undefined_operator"
     "cast_query ?env [1 / 10, 1 / 5] [1 / 10, 1 / 5] 5 = Inl in_failed_transaction"
     "text_query ?env (''%'' @ message question @ ''%'') 5 = Inl in_failed_transaction"
    by (simp_all add: native_query_fails_def demo_env_def text_query_def cast_query_def)
  from all_tiers_fail_structured_error [OF h] h(7) show ?thesis
    by (simp add: in_failed_transaction_def)
qed

subsection \<open>The textual tier\<close>

text \<open>
  C3. The textual tier returns nothing: its query is sent on the transaction in which the
  native and the cast query have just failed, and the code never rolls back. With the native
  query raising "operator does not exist", the request below makes the three queries in
  order and is answered with status 500 and the detail "current transaction is aborted",
  not with the passages that contain the question.
\<close>

theorem text_tier_raises_after_vector_failure:
  "post_chat (native_query_fails demo_env) question =
     (ErrorDetail 500
        (''500: Search failed: current transaction is aborted, commands ignored until end of transaction block''
         @ [CHR 0x0A]),
      [Encode ''What screen size does it have?'', Connect, ExecColumns, ExecSample,
       ExecNative [1 / 10, 1 / 5] [1 / 10, 1 / 5] 5, ExecCast [1 / 10, 1 / 5] [1 / 10, 1 / 5] 5,
       ExecText ''%What screen size does it have?%'' 5, Close])"
  by (simp add: post_chat_def chat_def search_similar_chunks_def get_db_connection_def
      action_defs cast_query_def text_query_def native_query_fails_def demo_env_def question_def
      in_failed_transaction_def show_nat_500)

subsection \<open>The source list of a response\<close>

text \<open>
  C6, as stated, fails: a retrieved passage of 201 characters whose similarity is SQL NULL
  gets no source entry at all, the handler answers with status 500.
\<close>

theorem sources_truncated_at_200_counterexample:
  "fst (search_similar_chunks (long_null_similarity_row demo_env) (message question) 5 []) =
     Inr [[(''text'', PyStr (replicate 201 (CHR ''a''))), (''similarity'', PyNone)]]
   \<and> fst (post_chat (long_null_similarity_row demo_env) question) =
       ErrorDetail 500 (''type NoneType doesn'' @ [CHR 0x27] @ ''t define __round__ method'')"
  by code_simp

text \<open>
  C6, amended. Whenever every retrieved passage has a string as text and a float as
  similarity, the handler answers with status 200 and one source per passage, in order; the
  content of a source is the first 200 characters of the passage's text followed by the
  three characters \<^verbatim>\<open>...\<close> when the text is longer than 200 characters, and the text itself
  otherwise.
\<close>

theorem sources_truncated_at_200:
  assumes "fst (search_similar_chunks env (message request) 5 []) = Inr chunks"
    and "\<forall>c \<in> set chunks. retrieved_passage c"
  shows "\<exists>resp. fst (post_chat env request) = Ok200 resp
           \<and> length (sources resp) = length chunks
           \<and> (\<forall>i < length chunks. \<exists>t. map_of (chunks ! i) ''text'' = Some (PyStr t)
                \<and> content (sources resp ! i) =
                    PyStr (if length t > 200 then take 200 t @ ''...'' else t))"
proof -
  obtain resp where p: "fst (post_chat env request) = Ok200 resp"
    and ss: "sources resp = map formatted chunks"
    using post_chat_sources [OF assms] by blast
  have "\<exists>t. map_of (chunks ! i) ''text'' = Some (PyStr t)
          \<and> content (sources resp ! i) = PyStr (if length t > 200 then take 200 t @ ''...'' else t)"
    if "i < length chunks" for i
  proof -
    have "retrieved_passage (chunks ! i)" using assms(2) that by simp
    then obtain t where "map_of (chunks ! i) ''text'' = Some (PyStr t)"
      by (auto simp: retrieved_passage_def split: option.splits pyval.splits)
    then show ?thesis using that by (simp add: ss formatted_def truncate_text_def)
  qed
  then show ?thesis using p ss by simp
qed

theorem sources_truncated_at_200_witness:
  "fst (search_similar_chunks demo_env (message question) 5 []) =
     Inr [[(''text'', PyStr ''The ROG Ally has a 7-inch display''), (''similarity'', PyNum first_score)],
          [(''text'', PyStr long_passage), (''similarity'', PyNum second_score)]]
   \<and> (\<exists>resp. fst (post_chat demo_env question) = Ok200 resp
        \<and> length (sources resp) = 2
        \<and> content (sources resp ! 0) = PyStr ''The ROG Ally has a 7-inch display''
        \<and> content (sources resp ! 1) = PyStr (replicate 200 (CHR ''a'') @ ''...''))"
proof -
  let ?chunks = "[[(''text'', PyStr ''The ROG Ally has a 7-inch display''), (''similarity'', PyNum first_score)],
          [(''text'', PyStr long_passage), (''similarity'', PyNum second_score)]]"
  obtain resp where p: "fst (post_chat demo_env question) = Ok200 resp"
    and l: "length (sources resp) = length ?chunks"
    and a: "\<forall>i < length ?chunks. \<exists>t. map_of (?chunks ! i) ''text'' = Some (PyStr t)
                \<and> content (sources resp ! i) =
                    PyStr (if length t > 200 then take 200 t @ ''...'' else t)"
    using sources_truncated_at_200 [OF demo_search demo_passages] by blast
  have "content (sources resp ! 0) = PyStr ''The ROG Ally has a 7-inch display''"
    using a [rule_format, of 0] by simp
  moreover have "content (sources resp ! 1) = PyStr (replicate 200 (CHR ''a'') @ ''...'')"
    using a [rule_format, of 1] by (simp add: long_passage_def)
  ultimately show ?thesis using p l demo_search by simp
qed

text \<open>
  C7, as stated, fails: for a retrieved passage whose similarity is SQL NULL the response
  has no similarity value, the handler answers with status 500.
\<close>

theorem similarity_rounded_to_3_places_counterexample:
  "fst (search_similar_chunks (null_similarity_row demo_env) (message question) 5 []) =
     Inr [[(''text'', PyStr ''The ROG Ally has a 7-inch display''), (''similarity'', PyNone)]]
   \<and> fst (post_chat (null_similarity_row demo_env) question) =
       ErrorDetail 500 (''type NoneType doesn'' @ [CHR 0x27] @ ''t define __round__ method'')"
  by code_simp

text \<open>
  C7, amended. Whenever every retrieved passage has a string as text and a float as
  similarity, the handler answers with status 200 and one source per passage, in order; the
  similarity of a source is the passage's similarity rounded to 3 decimal places (an integer
  number of thousandths, ties to the even neighbour, at most half a thousandth away from the
  retrieved score), and \<^verbatim>\<open>nan\<close> where the retrieved similarity is \<^verbatim>\<open>nan\<close>.
\<close>

theorem similarity_rounded_to_3_places:
  assumes "fst (search_similar_chunks env (message request) 5 []) = Inr chunks"
    and "\<forall>c \<in> set chunks. retrieved_passage c"
  shows "\<exists>resp. fst (post_chat env request) = Ok200 resp
           \<and> length (sources resp) = length chunks
           \<and> (\<forall>i < length chunks.
                (\<forall>s. map_of (chunks ! i) ''similarity'' = Some (PyNum s) \<longrightarrow>
                   similarity (sources resp ! i) = PyNum (round_to s 3)
                   \<and> round_to s 3 = of_int (round_half_even (s * 1000)) / 1000
                   \<and> \<bar>round_to s 3 - s\<bar> \<le> 1 / 2000)
                \<and> (map_of (chunks ! i) ''similarity'' = Some PyNaN \<longrightarrow>
                   similarity (sources resp ! i) = PyNaN))"
proof -
  obtain resp where p: "fst (post_chat env request) = Ok200 resp"
    and ss: "sources resp = map formatted chunks"
    using post_chat_sources [OF assms] by blast
  have "\<forall>i < length chunks.
                (\<forall>s. map_of (chunks ! i) ''similarity'' = Some (PyNum s) \<longrightarrow>
                   similarity (sources resp ! i) = PyNum (round_to s 3)
                   \<and> round_to s 3 = of_int (round_half_even (s * 1000)) / 1000
                   \<and> \<bar>round_to s 3 - s\<bar> \<le> 1 / 2000)
                \<and> (map_of (chunks ! i) ''similarity'' = Some PyNaN \<longrightarrow>
                   similarity (sources resp ! i) = PyNaN)"
    using round_to_3_near by (simp add: ss formatted_def round_to_def)
  then show ?thesis using p ss by simp
qed

theorem similarity_rounded_to_3_places_witness:
  "fst (search_similar_chunks demo_env (message question) 5 []) =
     Inr [[(''text'', PyStr ''The ROG Ally has a 7-inch display''), (''similarity'', PyNum first_score)],
          [(''text'', PyStr long_passage), (''similarity'', PyNum second_score)]]
   \<and> (\<exists>resp. fst (post_chat demo_env question) = Ok200 resp
        \<and> length (sources resp) = 2
        \<and> similarity (sources resp ! 0) = PyNum (812 / 1000)
        \<and> similarity (sources resp ! 1) = PyNum (429 / 1000))"
proof -
  let ?chunks = "[[(''text'', PyStr ''The ROG Ally has a 7-inch display''), (''similarity'', PyNum first_score)],
          [(''text'', PyStr long_passage), (''similarity'', PyNum second_score)]]"
  obtain resp where p: "fst (post_chat demo_env question) = Ok200 resp"
    and l: "length (sources resp) = length ?chunks"
    and a: "\<forall>i < length ?chunks.
                (\<forall>s. map_of (?chunks ! i) ''similarity'' = Some (PyNum s) \<longrightarrow>
                   similarity (sources resp ! i) = PyNum (round_to s 3)
                   \<and> round_to s 3 = of_int (round_half_even (s * 1000)) / 1000
                   \<and> \<bar>round_to s 3 - s\<bar> \<le> 1 / 2000)
                \<and> (map_of (?chunks ! i) ''similarity'' = Some PyNaN \<longrightarrow>
                   similarity (sources resp ! i) = PyNaN)"
    using similarity_rounded_to_3_places [OF demo_search demo_passages] by blast
  have 0: "map_of (?chunks ! 0) ''similarity'' = Some (PyNum first_score)" by simp
  have 1: "map_of (?chunks ! 1) ''similarity'' = Some (PyNum second_score)" by simp
  have "similarity (sources resp ! 0) = PyNum (round_to first_score 3)"
    using a [rule_format, of 0, THEN conjunct1, rule_format, OF _ 0] by simp
  then have "similarity (sources resp ! 0) = PyNum (812 / 1000)"
    by (simp only: round_demo)
  moreover have "similarity (sources resp ! 1) = PyNum (round_to second_score 3)"
    using a [rule_format, of 1, THEN conjunct1, rule_format, OF _ 1] by simp
  then have "similarity (sources resp ! 1) = PyNum (429 / 1000)"
    by (simp only: round_demo)
  ultimately show ?thesis using p l demo_search by simp
qed

subsection \<open>The Composer\<close>

text \<open>
  C8. For retrieved passages with the texts \<open>texts\<close> and any query, the prompt sent is the
  instruction template with the grounding context and the query in their places; the
  grounding context is the passages' texts, each under its label \<^verbatim>\<open>Source\<close> \<open>i + 1\<close>\<^verbatim>\<open>:\<close>,
  in the Retriever's order and joined by blank lines. When the completion service returns a
  completion for it, \<^verbatim>\<open>generate_answer\<close> has made exactly one completion request, with this
  prompt, \<^verbatim>\<open>max_tokens\<close> 1000 and temperature 0.7, and returns the first choice's text with
  surrounding whitespace removed: the text is the result between two runs of whitespace,
  and the result neither starts nor ends with whitespace.
\<close>

theorem composer_grounded_completion:
  assumes "chunks = map dict_of_row rows" and "map row_text rows = map PyStr texts"
  shows "let prompt =
           ''You are a helpful assistant answering questions about the Xbox ROG Ally handheld device. ''
           @ [CHR 0x0A]
           @ ''        Use the following information to answer the user's question. If you don't know the answer based on the provided information, say so.''
           @ [CHR 0x0A] @ [CHR 0x0A]
           @ ''        Context:'' @ [CHR 0x0A]
           @ ''        '' @ blank_line_joined (labelled_passages texts) @ [CHR 0x0A] @ [CHR 0x0A]
           @ ''        User Question: '' @ query @ [CHR 0x0A] @ [CHR 0x0A]
           @ ''        Answer:''
         in \<forall>completion others.
              completions_create env (groq_model env) prompt 1000 (7 / 10)
                = Inr (Some completion # others) \<longrightarrow>
              generate_answer env query chunks tr =
                (Inr (strip completion),
                 tr @ [GenerateAnswer query chunks,
                       ChatCompletion (groq_model env) prompt 1000 (7 / 10)])
              \<and> (\<exists>pre suf. completion = pre @ strip completion @ suf
                    \<and> (\<forall>c \<in> set pre. is_space c) \<and> (\<forall>c \<in> set suf. is_space c))
              \<and> (strip completion \<noteq> [] \<longrightarrow>
                    \<not> is_space (hd (strip completion)) \<and> \<not> is_space (last (strip completion)))"
  (is "Let ?P ?F")
proof -
  have b: "build_context env chunks = Inr (blank_line_joined (labelled_passages texts))"
    using build_context_texts [OF assms(2), of env] by (simp add: assms(1) grounding_context_def)
  have p: "make_prompt (blank_line_joined (labelled_passages texts)) query = ?P"
    by (simp add: make_prompt_def indent_def newline_def)
  have "generate_answer env query chunks tr =
          (Inr (strip completion),
           tr @ [GenerateAnswer query chunks, ChatCompletion (groq_model env) ?P 1000 (7 / 10)])
        \<and> (\<exists>pre suf. completion = pre @ strip completion @ suf
              \<and> (\<forall>c \<in> set pre. is_space c) \<and> (\<forall>c \<in> set suf. is_space c))
        \<and> (strip completion \<noteq> [] \<longrightarrow>
              \<not> is_space (hd (strip completion)) \<and> \<not> is_space (last (strip completion)))"
    if c: "completions_create env (groq_model env) ?P 1000 (7 / 10) = Inr (Some completion # others)"
    for completion others
  proof -
    have "generate_answer env query chunks tr =
            (Inr (strip completion),
             tr @ [GenerateAnswer query chunks,
                   ChatCompletion (groq_model env)
                     (make_prompt (blank_line_joined (labelled_passages texts)) query)
                     1000 (7 / 10)])"
      using c unfolding p [symmetric]
      by (simp add: generate_answer_def action_defs b first_choice_stripped_def)
    then show ?thesis
      using strip_surrounding [of completion] strip_ends [of completion]
      unfolding p by blast
  qed
  then show ?thesis unfolding Let_def by blast
qed

lemma demo_labelled:
  "blank_line_joined
     (labelled_passages [''The ROG Ally has a 7-inch display'', ''Battery lasts 100 minutes'']) =
   ''Source 1: The ROG Ally has a 7-inch display'' @ [CHR 0x0A, CHR 0x0A] @
   ''Source 2: Battery lasts 100 minutes''"
  by code_simp

lemma demo_strip: "strip '' It has a 7-inch display. '' = ''It has a 7-inch display.''"
  by code_simp

theorem composer_grounded_completion_witness:
  "generate_answer demo_env ''What screen size does it have?''
     [[(''text'', PyStr ''The ROG Ally has a 7-inch display''), (''similarity'', PyNum first_score)],
      [(''text'', PyStr ''Battery lasts 100 minutes''), (''similarity'', PyNum second_score)]] [] =
   (Inr ''It has a 7-inch display.'',
    [GenerateAnswer ''What screen size does it have?''
       [[(''text'', PyStr ''The ROG Ally has a 7-inch display''), (''similarity'', PyNum first_score)],
        [(''text'', PyStr ''Battery lasts 100 minutes''), (''similarity'', PyNum second_score)]],
     ChatCompletion (Some ''llama'')
       (''You are a helpful assistant answering questions about the Xbox ROG Ally handheld device. ''
        @ [CHR 0x0A]
        @ ''        Use the following information to answer the user's question. If you don't know the answer based on the provided information, say so.''
        @ [CHR 0x0A] @ [CHR 0x0A]
        @ ''        Context:'' @ [CHR 0x0A]
        @ ''        Source 1: The ROG Ally has a 7-inch display'' @ [CHR 0x0A] @ [CHR 0x0A]
        @ ''Source 2: Battery lasts 100 minutes'' @ [CHR 0x0A] @ [CHR 0x0A]
        @ ''        User Question: What screen size does it have?'' @ [CHR 0x0A] @ [CHR 0x0A]
        @ ''        Answer:'')
       1000 (7 / 10)])"
proof -
  let ?rows = "[\<lparr>row_text = PyStr ''The ROG Ally has a 7-inch display'', row_similarity = PyNum first_score\<rparr>,
         \<lparr>row_text = PyStr ''Battery lasts 100 minutes'', row_similarity = PyNum second_score\<rparr>]"
  let ?texts = "[''The ROG Ally has a 7-inch display'', ''Battery lasts 100 minutes'']"
  have r: "[[(''text'', PyStr ''The ROG Ally has a 7-inch display''), (''similarity'', PyNum first_score)],
      [(''text'', PyStr ''Battery lasts 100 minutes''), (''similarity'', PyNum second_score)]]
      = map dict_of_row ?rows"
    by (simp add: dict_of_row_def)
  have t: "map row_text ?rows = map PyStr ?texts" by simp
  have c: "completions_create demo_env (groq_model demo_env) p 1000 (7 / 10) =
             Inr (Some '' It has a 7-inch display. '' # [])" for p
    by (simp add: demo_env_def)
  have m: "groq_model demo_env = Some ''llama''"
    by (simp add: demo_env_def)
  from composer_grounded_completion [where env = demo_env
      and query = "''What screen size does it have?''" and tr = "[]", OF r t,
      unfolded Let_def, rule_format, OF c, THEN conjunct1]
  show ?thesis
    unfolding demo_labelled demo_strip m by simp
qed

text \<open>
  C4, as stated, fails: with the completion request raising and a retrieved passage whose
  text is SQL NULL, \<^verbatim>\<open>generate_answer\<close> returns its error string, but the handler
  answers with status 500 and no sources.
\<close>

theorem completion_failure_becomes_answer_counterexample:
  "fst (search_similar_chunks (completion_fails (null_text_row demo_env)) (message question) 5 []) =
     Inr [[(''text'', PyNone), (''similarity'', PyNum first_score)]]
   \<and> fst (generate_answer (completion_fails (null_text_row demo_env)) (message question)
            [[(''text'', PyNone), (''similarity'', PyNum first_score)]] []) =
       Inr ''Sorry, I encountered an error generating the answer: Request timed out.''
   \<and> fst (post_chat (completion_fails (null_text_row demo_env)) question) =
       ErrorDetail 500
         (''object of type '' @ [CHR 0x27] @ ''NoneType'' @ [CHR 0x27] @ '' has no len()'')"
  by code_simp

text \<open>
  C4, amended. For every non-empty list of passages the retrieval returns, the grounding
  context is built without failure, and if the completion request raises \<open>e\<close>, whatever
  \<open>e\<close> is, \<^verbatim>\<open>generate_answer\<close> returns the string that embeds \<^verbatim>\<open>str(e)\<close> instead of
  raising. If moreover every retrieved passage has a string as text and a float as
  similarity, the handler answers with status 200, that string as the answer and one
  formatted source per retrieved passage.
\<close>

theorem completion_failure_becomes_answer:
  assumes "fst (search_similar_chunks env (message request) 5 []) = Inr chunks"
    and "chunks \<noteq> []"
  shows "\<exists>ctx. build_context env chunks = Inr ctx
           \<and> (\<forall>e. completions_create env (groq_model env)
                       (make_prompt ctx (message request)) 1000 (7 / 10) = Inl e \<longrightarrow>
                  (\<forall>tr. fst (generate_answer env (message request) chunks tr) = Inr (error_answer e))
                  \<and> ((\<forall>c \<in> set chunks. retrieved_passage c) \<longrightarrow>
                       (\<exists>srcs. format_sources chunks = Inr srcs \<and> length srcs = length chunks
                          \<and> fst (post_chat env request) =
                              Ok200 \<lparr>answer = error_answer e, sources = srcs\<rparr>)))"
proof -
  obtain tr where s: "search_similar_chunks env (message request) 5 [] = (Inr chunks, tr)"
    using assms(1) by (cases "search_similar_chunks env (message request) 5 []") auto
  obtain rows where r: "chunks = map dict_of_row rows"
    using search_returns_rows [OF s] by blast
  let ?ctx = "grounding_context (map (\<lambda>r. py_format env (row_text r)) rows)"
  let ?p = "make_prompt ?ctx (message request)"
  have b: "build_context env chunks = Inr ?ctx"
    by (simp add: r build_context_rows)
  have "(\<forall>tr. fst (generate_answer env (message request) chunks tr) = Inr (error_answer e))
      \<and> ((\<forall>c \<in> set chunks. retrieved_passage c) \<longrightarrow>
            (\<exists>srcs. format_sources chunks = Inr srcs \<and> length srcs = length chunks
               \<and> fst (post_chat env request) = Ok200 \<lparr>answer = error_answer e, sources = srcs\<rparr>))"
    if c: "completions_create env (groq_model env) ?p 1000 (7 / 10) = Inl e" for e
  proof -
    have g: "generate_answer env (message request) chunks tr'' =
               (Inr (error_answer e),
                tr'' @ [GenerateAnswer (message request) chunks,
                        ChatCompletion (groq_model env) ?p 1000 (7 / 10)])" for tr''
      by (simp add: generate_answer_def action_defs b c)
    have "\<exists>srcs. format_sources chunks = Inr srcs \<and> length srcs = length chunks
               \<and> fst (post_chat env request) = Ok200 \<lparr>answer = error_answer e, sources = srcs\<rparr>"
      if w: "\<forall>c \<in> set chunks. retrieved_passage c"
    proof -
      have f: "format_sources chunks = Inr (map formatted chunks)"
        by (rule format_sources_passages [OF w])
      have "chat env request [] =
              (Inr \<lparr>answer = error_answer e, sources = map formatted chunks\<rparr>,
               tr @ [GenerateAnswer (message request) chunks,
                     ChatCompletion (groq_model env) ?p 1000 (7 / 10)])"
        by (rule chat_grounded [OF s g f assms(2)])
      then show ?thesis using f
        by (intro exI [of _ "map formatted chunks"]) (simp add: post_chat_def)
    qed
    then show ?thesis using g by simp
  qed
  then show ?thesis using b by blast
qed

theorem completion_failure_becomes_answer_witness:
  "fst (search_similar_chunks (completion_fails demo_env) (message question) 5 []) =
     Inr [[(''text'', PyStr ''The ROG Ally has a 7-inch display''), (''similarity'', PyNum first_score)],
          [(''text'', PyStr long_passage), (''similarity'', PyNum second_score)]]
   \<and> fst (post_chat (completion_fails demo_env) question) =
       Ok200 \<lparr>answer = ''Sorry, I encountered an error generating the answer: Request timed out.'',
              sources =
                [\<lparr>content = PyStr ''The ROG Ally has a 7-inch display'', similarity = PyNum (812 / 1000)\<rparr>,
                 \<lparr>content = PyStr (replicate 200 (CHR ''a'') @ ''...''), similarity = PyNum (429 / 1000)\<rparr>]\<rparr>"
proof -
  let ?chunks = "[[(''text'', PyStr ''The ROG Ally has a 7-inch display''), (''similarity'', PyNum first_score)],
          [(''text'', PyStr long_passage), (''similarity'', PyNum second_score)]]"
  have ne: "?chunks \<noteq> []" by simp
  obtain ctx where
    a: "\<forall>e. completions_create (completion_fails demo_env) (groq_model (completion_fails demo_env))
                       (make_prompt ctx (message question)) 1000 (7 / 10) = Inl e \<longrightarrow>
                  (\<forall>tr. fst (generate_answer (completion_fails demo_env) (message question) ?chunks tr)
                         = Inr (error_answer e))
                  \<and> ((\<forall>c \<in> set ?chunks. retrieved_passage c) \<longrightarrow>
                       (\<exists>srcs. format_sources ?chunks = Inr srcs \<and> length srcs = length ?chunks
                          \<and> fst (post_chat (completion_fails demo_env) question)
                              = Ok200 \<lparr>answer = error_answer e, sources = srcs\<rparr>))"
    using completion_failure_becomes_answer [OF timeout_search ne] by blast
  have c: "completions_create (completion_fails demo_env) (groq_model (completion_fails demo_env))
             (make_prompt ctx (message question)) 1000 (7 / 10) = Inl request_timed_out"
    by (simp add: completion_fails_def)
  have e: "error_answer request_timed_out =
             ''Sorry, I encountered an error generating the answer: Request timed out.''"
    by (simp add: error_answer_def request_timed_out_def)
  obtain srcs where f: "format_sources ?chunks = Inr srcs"
    and p: "fst (post_chat (completion_fails demo_env) question)
          = Ok200 \<lparr>answer = error_answer request_timed_out, sources = srcs\<rparr>"
    using a c demo_passages by blast
  have "srcs = [\<lparr>content = PyStr ''The ROG Ally has a 7-inch display'', similarity = PyNum (812 / 1000)\<rparr>,
        \<lparr>content = PyStr (replicate 200 (CHR ''a'') @ ''...''), similarity = PyNum (429 / 1000)\<rparr>]"
    using f unfolding timeout_sources by simp
  then show ?thesis using p timeout_search unfolding e by simp
qed

text \<open>
  C10. \<^verbatim>\<open>generate_answer\<close> returns a string for every query and every list of chunks, and
  never raises. A chunk without the key \<^verbatim>\<open>text\<close> makes it return the error string for
  \<^verbatim>\<open>KeyError('text')\<close> without any completion request; any failure of the context
  assembly, of the completion request or of reading the response makes it return the error
  string for that failure; the empty list of chunks gives the empty context.
\<close>

theorem generate_answer_never_raises:
  "(\<exists>s. fst (generate_answer env query chunks tr) = Inr s)
   \<and> ((\<exists>c \<in> set chunks. map_of c ''text'' = None) \<longrightarrow>
        generate_answer env query chunks tr =
          (Inr (error_answer (KeyError ''text'')), tr @ [GenerateAnswer query chunks]))
   \<and> (\<forall>e. build_context env chunks = Inl e \<longrightarrow>
        generate_answer env query chunks tr =
          (Inr (error_answer e), tr @ [GenerateAnswer query chunks]))
   \<and> (\<forall>ctx e. build_context env chunks = Inr ctx \<and>
        completions_create env (groq_model env) (make_prompt ctx query) 1000 (7 / 10) = Inl e \<longrightarrow>
        fst (generate_answer env query chunks tr) = Inr (error_answer e))
   \<and> (\<forall>ctx response e. build_context env chunks = Inr ctx \<and>
        completions_create env (groq_model env) (make_prompt ctx query) 1000 (7 / 10) = Inr response \<and>
        first_choice_stripped response = Inl e \<longrightarrow>
        fst (generate_answer env query chunks tr) = Inr (error_answer e))
   \<and> build_context env [] = Inr []"
proof -
  have 1: "\<exists>s. fst (generate_answer env query chunks tr) = Inr s"
    using generate_answer_returns [of env query chunks tr] by auto
  have 2: "generate_answer env query chunks tr =
          (Inr (error_answer (KeyError ''text'')), tr @ [GenerateAnswer query chunks])"
    if "\<exists>c \<in> set chunks. map_of c ''text'' = None"
    using source_lines_missing_text [OF that, of env 0]
    by (simp add: generate_answer_def action_defs build_context_def and_then_def)
  have 3: "generate_answer env query chunks tr =
          (Inr (error_answer e), tr @ [GenerateAnswer query chunks])"
    if "build_context env chunks = Inl e" for e
    using that by (simp add: generate_answer_def action_defs)
  have 4: "fst (generate_answer env query chunks tr) = Inr (error_answer e)"
    if "build_context env chunks = Inr ctx"
      "completions_create env (groq_model env) (make_prompt ctx query) 1000 (7 / 10) = Inl e"
    for ctx e
    using that by (simp add: generate_answer_def action_defs)
  have 5: "fst (generate_answer env query chunks tr) = Inr (error_answer e)"
    if "build_context env chunks = Inr ctx"
      "completions_create env (groq_model env) (make_prompt ctx query) 1000 (7 / 10) = Inr response"
      "first_choice_stripped response = Inl e"
    for ctx response e
    using that by (simp add: generate_answer_def action_defs)
  have 6: "build_context env [] = Inr []"
    by (simp add: build_context_def and_then_def)
  from 1 2 3 4 5 6 show ?thesis by blast
qed

theorem generate_answer_never_raises_witness:
  "map_of [(''similarity'', PyNum first_score)] ''text'' = None
   \<and> generate_answer demo_env ''q'' [[(''similarity'', PyNum first_score)]] [] =
       (Inr (''Sorry, I encountered an error generating the answer: '' @ quoted ''text''),
        [GenerateAnswer ''q'' [[(''similarity'', PyNum first_score)]]])
   \<and> fst (generate_answer (completion_fails demo_env) ''q'' [] []) =
       Inr ''Sorry, I encountered an error generating the answer: Request timed out.''
   \<and> fst (generate_answer (no_choices demo_env) ''q'' [] []) =
       Inr ''Sorry, I encountered an error generating the answer: list index out of range''"
proof -
  let ?chunks = "[[(''similarity'', PyNum first_score)]]"
  have m: "\<exists>c \<in> set ?chunks. map_of c ''text'' = None"
    by simp
  have 1: "generate_answer demo_env ''q'' ?chunks [] =
          (Inr (error_answer (KeyError ''text'')), [] @ [GenerateAnswer ''q'' ?chunks])"
    by (rule generate_answer_never_raises [THEN conjunct2, THEN conjunct1, rule_format, OF m])
  have c2: "build_context (completion_fails demo_env) [] = Inr []
      \<and> completions_create (completion_fails demo_env) (groq_model (completion_fails demo_env))
           (make_prompt [] ''q'') 1000 (7 / 10) = Inl request_timed_out"
    by (simp add: build_context_def and_then_def completion_fails_def)
  have 2: "fst (generate_answer (completion_fails demo_env) ''q'' [] []) =
             Inr (error_answer request_timed_out)"
    by (rule generate_answer_never_raises [THEN conjunct2, THEN conjunct2, THEN conjunct2,
          THEN conjunct1, rule_format, OF c2])
  have c3: "build_context (no_choices demo_env) [] = Inr []
      \<and> completions_create (no_choices demo_env) (groq_model (no_choices demo_env))
           (make_prompt [] ''q'') 1000 (7 / 10) = Inr []
      \<and> first_choice_stripped [] = Inl (IndexError ''list index out of range'')"
    by (simp add: build_context_def and_then_def no_choices_def first_choice_stripped_def)
  have 3: "fst (generate_answer (no_choices demo_env) ''q'' [] []) =
             Inr (error_answer (IndexError ''list index out of range''))"
    by (rule generate_answer_never_raises [THEN conjunct2, THEN conjunct2, THEN conjunct2,
          THEN conjunct2, THEN conjunct1, rule_format, OF c3])
  from 1 2 3 show ?thesis
    by (simp add: error_answer_def request_timed_out_def)
qed

subsection \<open>Schema introspection\<close>

text \<open>
  C9. Whenever a retrieval tier is attempted, the first four calls of the retrieval are the
  query encoding, the connection, the table-structure query and the one-row sample of the
  embedding column, in this order. If the table-structure query raises, or it succeeds and
  the sample query raises, the retrieval raises an \<^verbatim>\<open>HTTPException\<close> with status 500 and
  closes the connection with no tier attempted (not the textual one either), and the handler
  answers with status 500.
\<close>

theorem introspection_before_tiers:
  "((\<exists>ev \<in> set (snd (search_similar_chunks env query top_k [])). tier_event ev) \<longrightarrow>
            take 4 (snd (search_similar_chunks env query top_k [])) =
              [Encode query, Connect, ExecColumns, ExecSample])
       \<and> (\<forall>qe e. encode env query = Inr qe \<and> connect env = Inr () \<and> columns_query env = Inl e \<longrightarrow>
            search_similar_chunks env query top_k [] =
              (Inl (HTTPException 500 (''Search failed: '' @ str_exn e)),
               [Encode query, Connect, ExecColumns, Close]))
       \<and> (\<forall>qe e. encode env query = Inr qe \<and> connect env = Inr () \<and> columns_query env = Inr ()
              \<and> sample_query env = Inl e \<longrightarrow>
            search_similar_chunks env query top_k [] =
              (Inl (HTTPException 500 (''Search failed: '' @ str_exn e)),
               [Encode query, Connect, ExecColumns, ExecSample, Close]))
       \<and> (\<forall>qe e request. encode env query = Inr qe \<and> connect env = Inr ()
              \<and> (columns_query env = Inl e \<or> columns_query env = Inr () \<and> sample_query env = Inl e)
              \<and> message request = query \<longrightarrow>
            fst (post_chat env request) = ErrorDetail 500 (''500: Search failed: '' @ str_exn e))"
  by (auto simp: post_chat_def chat_def search_similar_chunks_def get_db_connection_def
      action_defs show_nat_500 split: sum.splits prod.splits)

theorem introspection_before_tiers_witness:
  "search_similar_chunks (columns_query_fails demo_env) (message question) 5 [] =
     (Inl (HTTPException 500 ''Search failed: permission denied''),
      [Encode (message question), Connect, ExecColumns, Close])
   \<and> search_similar_chunks (sample_query_fails demo_env) (message question) 5 [] =
     (Inl (HTTPException 500 ''Search failed: column does not exist''),
      [Encode (message question), Connect, ExecColumns, ExecSample, Close])
   \<and> fst (post_chat (sample_query_fails demo_env) question) =
       ErrorDetail 500 ''500: Search failed: column does not exist''
   \<and> tier_event (snd (search_similar_chunks demo_env (message question) 5 []) ! 4)
   \<and> take 4 (snd (search_similar_chunks demo_env (message question) 5 [])) =
       [Encode (message question), Connect, ExecColumns, ExecSample]"
proof -
  have c: "encode (columns_query_fails demo_env) (message question) = Inr [1 / 10, 1 / 5]
      \<and> connect (columns_query_fails demo_env) = Inr ()
      \<and> columns_query (columns_query_fails demo_env) = Inl (Failure ''permission denied'')"
    by (simp add: columns_query_fails_def demo_env_def)
  have s: "encode (sample_query_fails demo_env) (message question) = Inr [1 / 10, 1 / 5]
      \<and> connect (sample_query_fails demo_env) = Inr ()
      \<and> columns_query (sample_query_fails demo_env) = Inr ()
      \<and> sample_query (sample_query_fails demo_env) = Inl (Failure ''column does not exist'')"
    by (simp add: sample_query_fails_def demo_env_def)
  have s': "encode (sample_query_fails demo_env) (message question) = Inr [1 / 10, 1 / 5]
      \<and> connect (sample_query_fails demo_env) = Inr ()
      \<and> (columns_query (sample_query_fails demo_env) = Inl (Failure ''column does not exist'')
         \<or> columns_query (sample_query_fails demo_env) = Inr ()
           \<and> sample_query (sample_query_fails demo_env) = Inl (Failure ''column does not exist''))
      \<and> message question = message question"
    using s by simp
  have t: "snd (search_similar_chunks demo_env (message question) 5 []) =
             [Encode (message question), Connect, ExecColumns, ExecSample,
              ExecNative [1 / 10, 1 / 5] [1 / 10, 1 / 5] 5, Close]"
    by (simp add: demo_env_def search_similar_chunks_def get_db_connection_def action_defs)
  have ex: "\<exists>ev \<in> set (snd (search_similar_chunks demo_env (message question) 5 [])). tier_event ev"
    unfolding t by simp
  have 1: "search_similar_chunks (columns_query_fails demo_env) (message question) 5 [] =
     (Inl (HTTPException 500 (''Search failed: '' @ str_exn (Failure ''permission denied''))),
      [Encode (message question), Connect, ExecColumns, Close])"
    by (rule introspection_before_tiers [THEN conjunct2, THEN conjunct1, rule_format, OF c])
  have 2: "search_similar_chunks (sample_query_fails demo_env) (message question) 5 [] =
     (Inl (HTTPException 500 (''Search failed: '' @ str_exn (Failure ''column does not exist''))),
      [Encode (message question), Connect, ExecColumns, ExecSample, Close])"
    by (rule introspection_before_tiers [THEN conjunct2, THEN conjunct2, THEN conjunct1,
          rule_format, OF s])
  have 3: "fst (post_chat (sample_query_fails demo_env) question) =
       ErrorDetail 500 (''500: Search failed: '' @ str_exn (Failure ''column does not exist''))"
    by (rule introspection_before_tiers [THEN conjunct2, THEN conjunct2, THEN conjunct2,
          rule_format, OF s'])
  have 4: "take 4 (snd (search_similar_chunks demo_env (message question) 5 [])) =
       [Encode (message question), Connect, ExecColumns, ExecSample]"
    by (rule introspection_before_tiers [THEN conjunct1, rule_format, OF ex])
  from 1 2 3 4 show ?thesis by (simp add: t)
qed

end
